theory Spec2Isabelle
  imports Complex_Main "HOL-Library.AList"
begin

section \<open>The file system seen by the backup program\<close>

text \<open>
  The program (the recurring variant, \<^verbatim>\<open>runBackupOperation\<close> with \<^verbatim>\<open>setInterval\<close>) reads and
  writes three places: the folder to back up, the temporary copy and the zip file. The
  disk is a map from such a path to the tree stored there; the paths are taken to name
  disjoint trees.

  A node is what \<^verbatim>\<open>stat\<close> and \<^verbatim>\<open>readdir\<close> can tell about a directory entry:
  \<^item> \<open>File n\<close>: an entry that is not a directory, of \<open>n\<close> bytes;
  \<^item> \<open>Dir es\<close>: a directory that can be listed, with its entries in listing order;
  \<^item> \<open>Denied\<close>: a directory that \<^verbatim>\<open>stat\<close> sees and \<^verbatim>\<open>readdir\<close> may not list;
  \<^item> \<open>Dangling\<close>: a symbolic link whose target is missing, so that \<^verbatim>\<open>stat\<close> fails on it.

  Byte counts are natural numbers. A JavaScript number is exact on integers up to
  \<open>2 ^ 53\<close>, so the model is the program for totals below that bound.
\<close>

type_synonym path = string

datatype error = ENOENT | EACCES | ENOTDIR | EEXIST | EISDIR | EINVAL | EIO

datatype node =
    File nat
  | Dir "(string \<times> node) list"
  | Denied
  | Dangling

type_synonym filesystem = "path \<rightharpoonup> node"

record stats =
  isDirectory :: bool
  st_size :: nat

text \<open>\<^verbatim>\<open>fs.stat\<close> follows links. The size of a directory is never read by the program.\<close>

fun stat :: "node \<Rightarrow> error + stats" where
  "stat (File n) = Inr \<lparr>isDirectory = False, st_size = n\<rparr>"
| "stat (Dir es) = Inr \<lparr>isDirectory = True, st_size = 0\<rparr>"
| "stat Denied = Inr \<lparr>isDirectory = True, st_size = 0\<rparr>"
| "stat Dangling = Inl ENOENT"

fun readdir :: "node \<Rightarrow> error + (string \<times> node) list" where
  "readdir (Dir es) = Inr es"
| "readdir Denied = Inl EACCES"
| "readdir (File n) = Inl ENOTDIR"
| "readdir Dangling = Inl ENOENT"

lemma readdir_smaller:
  "readdir dir = Inr files \<Longrightarrow> size_list (size_prod (\<lambda>_. 0) size) files < size dir"
  by (cases dir) simp_all

section \<open>getFolderSize\<close>

text \<open>
  \<^verbatim>\<open>getSize\<close> lists the directory and walks the entries in order; \<open>totalSize\<close> is the
  variable of the enclosing \<^verbatim>\<open>getFolderSize\<close>, passed through. Nothing catches a failed
  \<^verbatim>\<open>readdir\<close> or \<^verbatim>\<open>stat\<close>: the first one rejects the whole scan.
\<close>

function getSize :: "node \<Rightarrow> nat \<Rightarrow> error + nat"
  and getSize_loop :: "(string \<times> node) list \<Rightarrow> nat \<Rightarrow> error + nat"
where
  "getSize dir totalSize =
     (case readdir dir of
        Inl e \<Rightarrow> Inl e
      | Inr files \<Rightarrow> getSize_loop files totalSize)"
| "getSize_loop [] totalSize = Inr totalSize"
| "getSize_loop ((file, fullPath) # files) totalSize =
     (case stat fullPath of
        Inl e \<Rightarrow> Inl e
      | Inr fileStat \<Rightarrow>
          if isDirectory fileStat then
            (case getSize fullPath totalSize of
               Inl e \<Rightarrow> Inl e
             | Inr totalSize' \<Rightarrow> getSize_loop files totalSize')
          else getSize_loop files (totalSize + st_size fileStat))"
  by pat_completeness auto

termination
  by (relation "measure (\<lambda>x. case x of
        Inl (dir, _) \<Rightarrow> size dir
      | Inr (files, _) \<Rightarrow> size_list (size_prod (\<lambda>_. 0) size) files)")
    (auto simp: readdir_smaller)

definition getFolderSize :: "filesystem \<Rightarrow> path \<Rightarrow> error + nat" where
  "getFolderSize disk folderPath =
     (case disk folderPath of
        None \<Rightarrow> Inl ENOENT
      | Some dir \<Rightarrow> getSize dir 0)"



section \<open>generateZipFilename\<close>

text \<open>
  \<^verbatim>\<open>new Date()\<close> is an argument: the local time as its getters return it
  (\<open>getMonth\<close> counts from 0). The milliseconds are never read.
\<close>

record date =
  getFullYear :: int
  getMonth :: nat
  getDate :: nat
  getHours :: nat
  getMinutes :: nat
  getSeconds :: nat

definition digit :: "nat \<Rightarrow> char" where
  "digit d = ''0123456789'' ! (d mod 10)"

text \<open>\<^verbatim>\<open>String(n)\<close> on an integer: its decimal digits, with a minus sign when negative.\<close>

function String_of_nat :: "nat \<Rightarrow> string" where
  "String_of_nat n =
     (if n < 10 then [digit n] else String_of_nat (n div 10) @ [digit (n mod 10)])"
  by pat_completeness auto
termination
  by (relation "measure id") auto

declare String_of_nat.simps [simp del]

definition String_of_int :: "int \<Rightarrow> string" where
  "String_of_int i =
     (if i < 0 then CHR ''-'' # String_of_nat (nat (- i)) else String_of_nat (nat i))"

text \<open>
  \<^verbatim>\<open>padStart(targetLength, padString)\<close>: the pad string is repeated and cut to fill the
  missing length; a string that is long enough, or an empty pad, changes nothing.
\<close>

definition padStart :: "nat \<Rightarrow> string \<Rightarrow> string \<Rightarrow> string" where
  "padStart targetLength padString s =
     (if targetLength \<le> length s \<or> padString = [] then s
      else take (targetLength - length s)
             (concat (replicate (targetLength - length s) padString)) @ s)"

text \<open>
  \<^verbatim>\<open>path.basename\<close> and \<^verbatim>\<open>path.join\<close> of Node's POSIX flavour, on paths without \<^verbatim>\<open>.\<close> and
  \<^verbatim>\<open>..\<close> segments and without doubled separators (nothing is normalised): the
  basename is the last segment, trailing separators dropped.
\<close>

definition is_sep :: "char \<Rightarrow> bool" where
  "is_sep c = (c = CHR ''/'')"

definition basename :: "path \<Rightarrow> string" where
  "basename p =
     rev (takeWhile (\<lambda>c. \<not> is_sep c) (dropWhile is_sep (rev p)))"

definition path_join :: "path \<Rightarrow> path \<Rightarrow> path" where
  "path_join a b =
     (if a = [] then b
      else if b = [] then a
      else if is_sep (last a) then a @ b
      else a @ ''/'' @ b)"

definition generateZipFilename :: "date \<Rightarrow> path \<Rightarrow> string" where
  "generateZipFilename now folderPath =
     (let year = getFullYear now;
          month = padStart 2 ''0'' (String_of_nat (getMonth now + 1));
          day = padStart 2 ''0'' (String_of_nat (getDate now));
          hours = padStart 2 ''0'' (String_of_nat (getHours now));
          minutes = padStart 2 ''0'' (String_of_nat (getMinutes now));
          seconds = padStart 2 ''0'' (String_of_nat (getSeconds now));
          timestamp = String_of_int year @ ''-'' @ month @ ''-'' @ day @ ''_'' @
                      hours @ ''-'' @ minutes @ ''-'' @ seconds;
          folderName = basename folderPath
      in timestamp @ ''_'' @ folderName @ ''.zip'')"

text \<open>
  The shape the filename convention asks for, written from its words:
  \<^verbatim>\<open>YYYY-MM-DD_HH-MM-SS_<basename-of-source>.zip\<close>, every field with leading zeros.
\<close>

definition two_digits :: "nat \<Rightarrow> string" where
  "two_digits n = [digit (n div 10), digit (n mod 10)]"

definition four_digits :: "nat \<Rightarrow> string" where
  "four_digits n =
     [digit (n div 1000), digit (n div 100 mod 10), digit (n div 10 mod 10), digit (n mod 10)]"

definition convention_filename :: "date \<Rightarrow> string \<Rightarrow> string" where
  "convention_filename now name =
     four_digits (nat (getFullYear now)) @ ''-'' @ two_digits (getMonth now + 1) @ ''-'' @
     two_digits (getDate now) @ ''_'' @ two_digits (getHours now) @ ''-'' @
     two_digits (getMinutes now) @ ''-'' @ two_digits (getSeconds now) @
     ''_'' @ name @ ''.zip''"

section \<open>copyFolder and delFolder\<close>

text \<open>
  The calls into Node's \<^verbatim>\<open>fs\<close> module, as its documentation describes them, for a process
  that may write wherever it is asked to (permissions on writing and deleting are not
  modelled, permissions on reading are the \<open>Denied\<close> nodes).

  \<^verbatim>\<open>fs.mkdirSync(p, { recursive: true })\<close> creates the directory when it is missing and is
  content with a directory that is there.
\<close>

definition mkdirSync :: "path \<Rightarrow> filesystem \<Rightarrow> error + filesystem" where
  "mkdirSync p disk =
     (case disk p of
        None \<Rightarrow> Inr (disk(p \<mapsto> Dir []))
      | Some (Dir es) \<Rightarrow> Inr disk
      | Some Denied \<Rightarrow> Inr disk
      | Some (File n) \<Rightarrow> Inl EEXIST
      | Some Dangling \<Rightarrow> Inl EEXIST)"

text \<open>
  \<^verbatim>\<open>fs.cpSync(src, dest, { recursive: true })\<close> copies entry by entry, in listing order, over
  what the destination already holds, and stops at the first entry it cannot copy.
  What it wrote until then stays. The result is the destination afterwards and the
  error thrown, if any. A link is copied as a link.
\<close>

function cp_node :: "node \<Rightarrow> node option \<Rightarrow> node option \<times> error option"
  and cp_entries ::
    "(string \<times> node) list \<Rightarrow> (string \<times> node) list \<Rightarrow> (string \<times> node) list \<times> error option"
where
  "cp_node (File n) dest =
     (case dest of
        Some (Dir ds) \<Rightarrow> (dest, Some EISDIR)
      | Some Denied \<Rightarrow> (dest, Some EISDIR)
      | _ \<Rightarrow> (Some (File n), None))"
| "cp_node Dangling dest =
     (case dest of
        Some (Dir ds) \<Rightarrow> (dest, Some EISDIR)
      | Some Denied \<Rightarrow> (dest, Some EISDIR)
      | _ \<Rightarrow> (Some Dangling, None))"
| "cp_node Denied dest =
     (case dest of
        None \<Rightarrow> (Some (Dir []), Some EACCES)
      | Some (Dir ds) \<Rightarrow> (dest, Some EACCES)
      | Some Denied \<Rightarrow> (dest, Some EACCES)
      | _ \<Rightarrow> (dest, Some ENOTDIR))"
| "cp_node (Dir es) dest =
     (case dest of
        None \<Rightarrow> (case cp_entries es [] of (ds', err) \<Rightarrow> (Some (Dir ds'), err))
      | Some (Dir ds) \<Rightarrow> (case cp_entries es ds of (ds', err) \<Rightarrow> (Some (Dir ds'), err))
      | Some Denied \<Rightarrow> (dest, Some EACCES)
      | _ \<Rightarrow> (dest, Some ENOTDIR))"
| "cp_entries [] ds = (ds, None)"
| "cp_entries ((name, n) # es) ds =
     (case cp_node n (map_of ds name) of
        (written, err) \<Rightarrow>
          (let ds' = (case written of None \<Rightarrow> ds | Some w \<Rightarrow> AList.update name w ds)
           in case err of
                Some e \<Rightarrow> (ds', Some e)
              | None \<Rightarrow> cp_entries es ds'))"
  by pat_completeness auto
termination
  by (relation "measure (\<lambda>x. case x of
        Inl (n, _) \<Rightarrow> size n
      | Inr (es, _) \<Rightarrow> size_list (size_prod (\<lambda>_. 0) size) es)") auto

definition cpSync :: "path \<Rightarrow> path \<Rightarrow> filesystem \<Rightarrow> filesystem \<times> error option" where
  "cpSync src dest disk =
     (if src = dest then (disk, Some EINVAL)
      else case disk src of
        None \<Rightarrow> (disk, Some ENOENT)
      | Some n \<Rightarrow> (case cp_node n (disk dest) of (written, err) \<Rightarrow> (disk(dest := written), err)))"

text \<open>
  \<^verbatim>\<open>copyFolder\<close> makes sure the folder to back up exists (it is \<open>folderPath\<close> that
  \<^verbatim>\<open>mkdirSync\<close> is given) and copies it. It catches nothing: the result is the disk as the
  failing call left it, and the exception.
\<close>

definition copyFolder :: "path \<Rightarrow> path \<Rightarrow> filesystem \<Rightarrow> filesystem \<times> error option" where
  "copyFolder folderPath tmpFolderPath disk =
     (case mkdirSync folderPath disk of
        Inl e \<Rightarrow> (disk, Some e)
      | Inr disk' \<Rightarrow> cpSync folderPath tmpFolderPath disk')"

text \<open>
  \<^verbatim>\<open>fs.rmSync(p, { recursive, force })\<close>: with \<open>force\<close> a missing path is no error, with
  \<open>recursive\<close> a directory goes with all it holds.
\<close>

fun is_dir :: "node \<Rightarrow> bool" where
  "is_dir (Dir es) = True"
| "is_dir Denied = True"
| "is_dir (File n) = False"
| "is_dir Dangling = False"

definition rmSync :: "path \<Rightarrow> bool \<Rightarrow> bool \<Rightarrow> filesystem \<Rightarrow> error + filesystem" where
  "rmSync p recursive force disk =
     (case disk p of
        None \<Rightarrow> if force then Inr disk else Inl ENOENT
      | Some n \<Rightarrow> if is_dir n \<and> \<not> recursive then Inl EISDIR else Inr (disk(p := None)))"

definition delFolder :: "path \<Rightarrow> filesystem \<Rightarrow> error + filesystem" where
  "delFolder tmpFolderPath disk = rmSync tmpFolderPath True True disk"

section \<open>zipFolder: the archive build and its event handlers\<close>

text \<open>
  The progress fraction is a JavaScript number. Its finite values are modelled as
  rationals (the rounding of floating point is left out); dividing by zero gives
  \<open>Infinity\<close> or \<open>NaN\<close> as it does in JavaScript, and raises nothing.
\<close>

datatype jsnum = Fin rat | PInf | NInf | NaN

definition js_div :: "nat \<Rightarrow> nat \<Rightarrow> jsnum" where
  "js_div a b =
     (if b = 0 then (if a = 0 then NaN else PInf) else Fin (of_nat a / of_nat b))"

fun js_sub :: "jsnum \<Rightarrow> jsnum \<Rightarrow> jsnum" where
  "js_sub NaN y = NaN"
| "js_sub x NaN = NaN"
| "js_sub (Fin a) (Fin b) = Fin (a - b)"
| "js_sub (Fin a) PInf = NInf"
| "js_sub (Fin a) NInf = PInf"
| "js_sub PInf PInf = NaN"
| "js_sub PInf y = PInf"
| "js_sub NInf NInf = NaN"
| "js_sub NInf y = NInf"

fun js_ge :: "jsnum \<Rightarrow> jsnum \<Rightarrow> bool" where
  "js_ge NaN y = False"
| "js_ge x NaN = False"
| "js_ge (Fin a) (Fin b) = (b \<le> a)"
| "js_ge PInf y = True"
| "js_ge x NInf = True"
| "js_ge (Fin a) PInf = False"
| "js_ge NInf y = False"

text \<open>
  The variables one call of \<^verbatim>\<open>zipFolder\<close> closes over. \<open>bar\<close> is \<open>None\<close> for \<^verbatim>\<open>null\<close>, or
  the ratios \<^verbatim>\<open>bar.update\<close> has been given so far, oldest first. \<open>closed\<close> is set once the
  output stream has closed.
\<close>

record build =
  bar :: "jsnum list option"
  lastPrintedProgress :: jsnum
  totalBytes :: nat
  outputZipPath :: path
  tmpFolder :: path
  closed :: bool

text \<open>The state after \<^verbatim>\<open>getFolderSize\<close> has returned: a bar only for a positive total.\<close>

definition new_build :: "nat \<Rightarrow> path \<Rightarrow> path \<Rightarrow> build" where
  "new_build total_bytes out tmp =
     \<lparr>bar = (if 0 < total_bytes then Some [] else None),
      lastPrintedProgress = Fin 0,
      totalBytes = total_bytes,
      outputZipPath = out,
      tmpFolder = tmp,
      closed = False\<rparr>"

text \<open>\<^verbatim>\<open>archive.on("progress", ...)\<close>, given \<^verbatim>\<open>data.fs.processedBytes\<close>.\<close>

definition on_progress :: "build \<Rightarrow> nat \<Rightarrow> build" where
  "on_progress b processedBytes =
     (case bar b of
        None \<Rightarrow> b
      | Some updates \<Rightarrow>
          (let progress = js_div processedBytes (totalBytes b)
           in if js_ge (js_sub progress (lastPrintedProgress b)) (Fin (1 / 100))
              then b\<lparr>bar := Some (updates @ [progress]), lastPrintedProgress := progress\<rparr>
              else b))"

text \<open>
  The running program: the disk, the builds started so far (a build is in flight
  until its output stream closes), the errors \<^verbatim>\<open>handleException\<close> has printed, and the
  exception or rejected promise that nothing caught, which ends the process.
\<close>

record process =
  disk :: filesystem
  builds :: "build list"
  reported :: "error list"
  uncaught :: "error option"

definition handleException :: "error \<Rightarrow> process \<Rightarrow> process" where
  "handleException err s = s\<lparr>reported := reported s @ [err]\<rparr>"

text \<open>\<^verbatim>\<open>fs.createWriteStream\<close> opens the file for writing: created, or cut to nothing.\<close>

definition createWriteStream :: "path \<Rightarrow> filesystem \<Rightarrow> filesystem" where
  "createWriteStream p d = d(p \<mapsto> File 0)"

definition statSync :: "filesystem \<Rightarrow> path \<Rightarrow> error + stats" where
  "statSync d p = (case d p of None \<Rightarrow> Inl ENOENT | Some n \<Rightarrow> stat n)"

text \<open>
  \<^verbatim>\<open>zipFolder\<close> up to the point where it hands over to the archiver. The handlers are
  registered after \<^verbatim>\<open>await getFolderSize\<close>: when the scan is rejected, so is the promise
  of \<^verbatim>\<open>zipFolder\<close>, which the caller never looks at, and no handler exists.
\<close>

definition zipFolder :: "path \<Rightarrow> path \<Rightarrow> path \<Rightarrow> process \<Rightarrow> process" where
  "zipFolder folderPath outputZip tmp s =
     (let d = createWriteStream outputZip (disk s)
      in case getFolderSize d folderPath of
           Inl e \<Rightarrow> s\<lparr>disk := d, uncaught := Some e\<rparr>
         | Inr total_bytes \<Rightarrow>
             s\<lparr>disk := d, builds := builds s @ [new_build total_bytes outputZip tmp]\<rparr>)"

text \<open>
  \<^verbatim>\<open>output.on("close", ...)\<close> for build \<open>i\<close>: the bar is set to 1, the size of the zip file
  is read, and the temporary folder is deleted. An exception leaves the handler at
  once.
\<close>

definition on_close :: "nat \<Rightarrow> process \<Rightarrow> process" where
  "on_close i s =
     (let b = builds s ! i;
          b' = b\<lparr>bar := map_option (\<lambda>updates. updates @ [Fin 1]) (bar b), closed := True\<rparr>;
          s' = s\<lparr>builds := (builds s)[i := b']\<rparr>
      in case statSync (disk s') (outputZipPath b) of
           Inl e \<Rightarrow> s'\<lparr>uncaught := Some e\<rparr>
         | Inr zipStat \<Rightarrow>
             (case delFolder (tmpFolder b) (disk s') of
                Inl e \<Rightarrow> s'\<lparr>uncaught := Some e\<rparr>
              | Inr d \<Rightarrow> s'\<lparr>disk := d\<rparr>))"

section \<open>runBackupOperation and the timer\<close>

text \<open>
  \<open>backup.yaml\<close> is read again by every cycle, so its two entries come with the event
  that starts the cycle; \<open>tmpdir\<close> is \<^verbatim>\<open>os.tmpdir()\<close>.
\<close>

record config =
  folderName :: path
  zipFolderName :: path
  tmpdir :: path

definition zipPath_of :: "config \<Rightarrow> date \<Rightarrow> path" where
  "zipPath_of cfg now = path_join (zipFolderName cfg) (generateZipFilename now (folderName cfg))"

definition tmpFolder_of :: "config \<Rightarrow> path" where
  "tmpFolder_of cfg = path_join (tmpdir cfg) ''temp_backup_world''"

definition runBackupOperation :: "config \<Rightarrow> date \<Rightarrow> process \<Rightarrow> process" where
  "runBackupOperation cfg now s =
     (let zipPath = zipPath_of cfg now;
          tmp = tmpFolder_of cfg
      in case copyFolder (folderName cfg) tmp (disk s) of
           (d, Some e) \<Rightarrow> s\<lparr>disk := d, uncaught := Some e\<rparr>
         | (d, None) \<Rightarrow> zipFolder tmp zipPath tmp (s\<lparr>disk := d\<rparr>))"

text \<open>
  What happens next is one of: the timer of \<^verbatim>\<open>setInterval\<close> fires (the first call of
  \<^verbatim>\<open>runBackupOperation\<close>, at start-up, is such an event too), or the archiver or the output
  stream of build \<open>i\<close> emits an event. JavaScript runs each handler to its end before
  the next. Once something is uncaught the process has ended and nothing runs.
\<close>

datatype archive_event = Progress nat | ArchiveError error | Close

datatype event = Timer config date | Archive nat archive_event


definition step :: "process \<Rightarrow> event \<Rightarrow> process" where
  "step s ev =
     (if uncaught s \<noteq> None then s
      else case ev of
        Timer cfg now \<Rightarrow> runBackupOperation cfg now s
      | Archive i a \<Rightarrow>
          if length (builds s) \<le> i then s
          else if closed (builds s ! i) then s
          else (case a of
                  Progress processedBytes \<Rightarrow>
                    s\<lparr>builds := (builds s)[i := on_progress (builds s ! i) processedBytes]\<rparr>
                | ArchiveError err \<Rightarrow> handleException err s
                | Close \<Rightarrow> on_close i s))"

definition run :: "process \<Rightarrow> event list \<Rightarrow> process" where
  "run s evs = foldl step s evs"

definition start :: "filesystem \<Rightarrow> process" where
  "start d = \<lparr>disk = d, builds = [], reported = [], uncaught = None\<rparr>"

section \<open>Example inputs\<close>

text \<open>
  The time of the examples is 5 January 2024, 09:03:07. The worlds: one file of 10 MB
  beside an empty directory; a world holding a link whose target is gone; a world
  holding a directory that may not be listed.
\<close>

definition example_now :: date where
  "example_now =
     \<lparr>getFullYear = 2024, getMonth = 0, getDate = 5, getHours = 9, getMinutes = 3, getSeconds = 7\<rparr>"

definition example_config :: config where
  "example_config = \<lparr>folderName = ''/srv/world'', zipFolderName = ''/backups'', tmpdir = ''/tmp''\<rparr>"

definition example_world :: node where
  "example_world = Dir [(''big.bin'', File 10485760), (''empty'', Dir [])]"

definition linked_world :: node where
  "linked_world = Dir [(''level.dat'', File 10), (''latest'', Dangling)]"


text \<open>
  A wall-clock time of the present era: a year of four digits and the ranges the
  getters of \<^verbatim>\<open>Date\<close> keep to.
\<close>

definition wall_clock :: "date \<Rightarrow> bool" where
  "wall_clock now \<longleftrightarrow>
     1000 \<le> getFullYear now \<and> getFullYear now \<le> 9999 \<and>
     getMonth now < 12 \<and> 1 \<le> getDate now \<and> getDate now \<le> 31 \<and>
     getHours now < 24 \<and> getMinutes now < 60 \<and> getSeconds now < 60"



lemmas cycle_defs =
  run_def step_def runBackupOperation_def zipFolder_def copyFolder_def mkdirSync_def cpSync_def
  createWriteStream_def getFolderSize_def tmpFolder_of_def zipPath_of_def path_join_def is_sep_def
  start_def new_build_def Let_def generateZipFilename_def example_config_def

section \<open>The size scan\<close>








section \<open>The archive filename\<close>

lemma digit_zero: "digit 0 = CHR ''0''"
  by (simp add: digit_def)

lemma String_of_nat_one: "n < 10 \<Longrightarrow> String_of_nat n = [digit n]"
  by (subst String_of_nat.simps) simp

lemma String_of_nat_step:
  "10 \<le> n \<Longrightarrow> String_of_nat n = String_of_nat (n div 10) @ [digit (n mod 10)]"
  by (subst String_of_nat.simps) simp

lemma String_of_nat_two:
  assumes "10 \<le> n" "n < 100"
  shows "String_of_nat n = [digit (n div 10), digit (n mod 10)]"
proof -
  from assms have "n div 10 < 10" by arith
  then show ?thesis
    using assms by (simp add: String_of_nat_step String_of_nat_one)
qed

lemma String_of_nat_three:
  assumes "100 \<le> n" "n < 1000"
  shows "String_of_nat n = [digit (n div 100), digit (n div 10 mod 10), digit (n mod 10)]"
proof -
  from assms have "10 \<le> n div 10" "n div 10 < 100" by arith+
  then have "String_of_nat (n div 10) = [digit (n div 10 div 10), digit (n div 10 mod 10)]"
    by (rule String_of_nat_two)
  moreover have "n div 10 div 10 = n div 100" by (simp add: div_mult2_eq[symmetric])
  moreover have "String_of_nat n = String_of_nat (n div 10) @ [digit (n mod 10)]"
    using assms by (intro String_of_nat_step) simp
  ultimately show ?thesis by simp
qed

lemma String_of_nat_four:
  assumes "1000 \<le> n" "n < 10000"
  shows "String_of_nat n = four_digits n"
proof -
  from assms have "100 \<le> n div 10" "n div 10 < 1000" by arith+
  then have "String_of_nat (n div 10) =
      [digit (n div 10 div 100), digit (n div 10 div 10 mod 10), digit (n div 10 mod 10)]"
    by (rule String_of_nat_three)
  moreover have "n div 10 div 100 = n div 1000" "n div 10 div 10 = n div 100"
    by (simp_all add: div_mult2_eq[symmetric])
  moreover have "String_of_nat n = String_of_nat (n div 10) @ [digit (n mod 10)]"
    using assms by (intro String_of_nat_step) simp
  ultimately show ?thesis by (simp add: four_digits_def)
qed

lemma padStart_two: "n < 100 \<Longrightarrow> padStart 2 ''0'' (String_of_nat n) = two_digits n"
proof (cases "n < 10")
  case True
  then show ?thesis
    by (simp add: String_of_nat_one padStart_def two_digits_def digit_zero)
next
  case False
  assume "n < 100"
  with False show ?thesis
    by (simp add: String_of_nat_two padStart_def two_digits_def)
qed

lemma String_of_int_year:
  "1000 \<le> y \<Longrightarrow> y \<le> 9999 \<Longrightarrow> String_of_int y = four_digits (nat y)"
proof -
  assume "1000 \<le> y" "y \<le> 9999"
  then have "1000 \<le> nat y" "nat y < 10000" by arith+
  then have "String_of_nat (nat y) = four_digits (nat y)" by (rule String_of_nat_four)
  with \<open>1000 \<le> y\<close> show ?thesis by (simp add: String_of_int_def)
qed

text \<open>
  C8. At a wall-clock time \<^verbatim>\<open>generateZipFilename\<close> returns the name of the convention,
  \<^verbatim>\<open>YYYY-MM-DD_HH-MM-SS_<basename>.zip\<close> with every field zero-padded, and at one and the
  same time two folders with different basenames get different names.
\<close>

theorem generateZipFilename_shape:
  "(wall_clock now \<longrightarrow>
      generateZipFilename now folderPath = convention_filename now (basename folderPath)) \<and>
   (basename folderPath \<noteq> basename otherPath \<longrightarrow>
      generateZipFilename now folderPath \<noteq> generateZipFilename now otherPath)"
proof (intro conjI impI)
  assume w: "wall_clock now"
  then show "generateZipFilename now folderPath = convention_filename now (basename folderPath)"
    by (simp add: wall_clock_def generateZipFilename_def convention_filename_def Let_def
          padStart_two String_of_int_year)
next
  assume "basename folderPath \<noteq> basename otherPath"
  then show "generateZipFilename now folderPath \<noteq> generateZipFilename now otherPath"
    by (simp add: generateZipFilename_def Let_def)
qed

theorem generateZipFilename_shape_witness:
  "wall_clock example_now \<and>
   basename ''/srv/world/'' \<noteq> basename ''/srv/nether'' \<and>
   generateZipFilename example_now ''/srv/world/'' = ''2024-01-05_09-03-07_world.zip'' \<and>
   generateZipFilename example_now ''/srv/world/'' \<noteq> generateZipFilename example_now ''/srv/nether''"
proof -
  have w: "wall_clock example_now"
    by (simp add: wall_clock_def example_now_def)
  have b: "basename ''/srv/world/'' \<noteq> basename ''/srv/nether''"
    by (simp add: basename_def is_sep_def)
  have c: "convention_filename example_now (basename ''/srv/world/'') = ''2024-01-05_09-03-07_world.zip''"
    by (simp add: convention_filename_def example_now_def basename_def is_sep_def
          four_digits_def two_digits_def digit_def)
  from generateZipFilename_shape [of example_now "''/srv/world/''" "''/srv/nether''"] w b c
  show ?thesis by metis
qed

text \<open>
  C10. The name depends on the folder only through its basename: two configurations
  whose folders share a basename and whose zip folder is the same get, at the same
  time, the same filename and the same output path, and the write stream the second
  cycle opens there cuts the file of the first to nothing.
\<close>

theorem same_basename_same_zipPath:
  assumes "basename (folderName cfg) = basename (folderName cfg')"
    and "zipFolderName cfg = zipFolderName cfg'"
  shows "generateZipFilename now (folderName cfg) = generateZipFilename now (folderName cfg') \<and>
         zipPath_of cfg now = zipPath_of cfg' now \<and>
         createWriteStream (zipPath_of cfg' now) d (zipPath_of cfg now) = Some (File 0)"
  using assms by (simp add: generateZipFilename_def zipPath_of_def createWriteStream_def Let_def)

theorem same_basename_same_zipPath_witness:
  "basename (folderName example_config) = basename (folderName (example_config\<lparr>folderName := ''/home/alex/world''\<rparr>)) \<and>
   zipFolderName example_config = zipFolderName (example_config\<lparr>folderName := ''/home/alex/world''\<rparr>) \<and>
   folderName example_config \<noteq> folderName (example_config\<lparr>folderName := ''/home/alex/world''\<rparr>) \<and>
   zipPath_of example_config example_now
     = zipPath_of (example_config\<lparr>folderName := ''/home/alex/world''\<rparr>) example_now"
  using same_basename_same_zipPath
    [of example_config "example_config\<lparr>folderName := ''/home/alex/world''\<rparr>" example_now]
  by (simp add: example_config_def basename_def is_sep_def)

section \<open>Deleting the temporary folder\<close>



section \<open>copyFolder\<close>





section \<open>Progress updates\<close>









section \<open>One build: progress events and close\<close>

lemma on_progress_closed: "closed (on_progress b p) = closed b"
  by (simp add: on_progress_def Let_def split: option.splits)

lemma on_progress_no_bar: "bar b = None \<Longrightarrow> on_progress b p = b"
  by (simp add: on_progress_def)

lemma foldl_on_progress_no_bar: "bar b = None \<Longrightarrow> foldl on_progress b ps = b"
  by (induction ps) (simp_all add: on_progress_no_bar)

lemma step_progress:
  assumes "uncaught s = None" "i < length (builds s)" "\<not> closed (builds s ! i)"
  shows "step s (Archive i (Progress p)) = s\<lparr>builds := (builds s)[i := on_progress (builds s ! i) p]\<rparr>"
  using assms by (simp add: step_def)

lemma run_progress:
  assumes "uncaught s = None" "i < length (builds s)" "\<not> closed (builds s ! i)"
  shows "run s (map (\<lambda>p. Archive i (Progress p)) ps)
         = s\<lparr>builds := (builds s)[i := foldl on_progress (builds s ! i) ps]\<rparr>"
  using assms
proof (induction ps arbitrary: s)
  case Nil
  then show ?case by (simp add: run_def)
next
  case (Cons p ps)
  let ?s1 = "s\<lparr>builds := (builds s)[i := on_progress (builds s ! i) p]\<rparr>"
  from Cons.prems have st: "step s (Archive i (Progress p)) = ?s1" by (rule step_progress)
  from Cons.prems have "uncaught ?s1 = None" "i < length (builds ?s1)" "\<not> closed (builds ?s1 ! i)"
    by (simp_all add: on_progress_closed)
  from Cons.IH [OF this] Cons.prems st show ?case
    by (simp add: run_def)
qed

text \<open>The path of success: when the zip file is there at \<^verbatim>\<open>close\<close>, the temporary folder goes.\<close>

lemma on_close_deletes:
  assumes "i < length (builds s)" "disk s (outputZipPath (builds s ! i)) = Some (File n)"
  shows "disk (on_close i s) (tmpFolder (builds s ! i)) = None \<and>
         uncaught (on_close i s) = uncaught s \<and>
         builds (on_close i s) = (builds s)
           [i := (builds s ! i)\<lparr>bar := map_option (\<lambda>updates. updates @ [Fin 1]) (bar (builds s ! i)),
                                   closed := True\<rparr>]"
  using assms
  by (cases "disk s (tmpFolder (builds s ! i))")
     (simp_all add: on_close_def Let_def statSync_def delFolder_def rmSync_def)

text \<open>
  C7. When the scan of the folder to zip returns 0, \<^verbatim>\<open>zipFolder\<close> starts a build without a
  bar; whatever progress events arrive, they change nothing (no ratio is computed, so
  nothing is divided by the zero total, and none is reported); and at \<^verbatim>\<open>close\<close> the
  build completes: still without a bar, \<open>lastPrintedProgress\<close> still 0, nothing
  uncaught, the temporary folder deleted.
\<close>

theorem zipFolder_empty_tree:
  assumes scan: "getFolderSize (createWriteStream out (disk s)) folderPath = Inr 0"
    and alive: "uncaught s = None"
  shows "let s1 = zipFolder folderPath out tmp s;
             i = length (builds s);
             s2 = run s1 (map (\<lambda>p. Archive i (Progress p)) ps);
             s3 = step s2 (Archive i Close)
         in builds s1 = builds s @ [new_build 0 out tmp] \<and>
            bar (builds s1 ! i) = None \<and>
            s2 = s1 \<and>
            bar (builds s3 ! i) = None \<and>
            lastPrintedProgress (builds s3 ! i) = Fin 0 \<and>
            closed (builds s3 ! i) \<and>
            uncaught s3 = None \<and>
            disk s3 tmp = None"
proof -
  let ?i = "length (builds s)"
  let ?b = "new_build 0 out tmp"
  let ?s1 = "zipFolder folderPath out tmp s"
  let ?s2 = "run ?s1 (map (\<lambda>p. Archive ?i (Progress p)) ps)"
  have s1: "?s1 = s\<lparr>disk := createWriteStream out (disk s), builds := builds s @ [?b]\<rparr>"
    using scan by (simp add: zipFolder_def Let_def)
  have b: "bar ?b = None" "\<not> closed ?b" "outputZipPath ?b = out" "tmpFolder ?b = tmp"
    "lastPrintedProgress ?b = Fin 0"
    by (simp_all add: new_build_def)
  have nth: "builds ?s1 ! ?i = ?b" and len: "?i < length (builds ?s1)"
    and un: "uncaught ?s1 = None"
    using alive by (simp_all add: s1)
  from run_progress [OF un len, of ps] nth b
  have "?s2 = ?s1\<lparr>builds := (builds ?s1)[?i := foldl on_progress ?b ps]\<rparr>" by simp
  with b(1) nth have s2: "?s2 = ?s1" by (simp add: foldl_on_progress_no_bar [OF b(1)] s1)
  have out: "disk ?s1 (outputZipPath (builds ?s1 ! ?i)) = Some (File 0)"
    by (simp add: nth b) (simp add: s1 createWriteStream_def)
  have st: "step ?s1 (Archive ?i Close) = on_close ?i ?s1"
    using un len nth b by (simp add: step_def)
  from on_close_deletes [OF len out] nth b un
  have "disk (on_close ?i ?s1) tmp = None" "uncaught (on_close ?i ?s1) = None"
    "builds (on_close ?i ?s1) ! ?i = ?b\<lparr>bar := None, closed := True\<rparr>"
    using len by simp_all
  with s2 st nth b s1 show ?thesis
    by (simp add: Let_def)
qed

theorem zipFolder_empty_tree_witness:
  "getFolderSize
     (createWriteStream ''/backups/w.zip'' (disk (start [''/tmp/temp_backup_world'' \<mapsto> Dir [(''region'', Dir [])]])))
     ''/tmp/temp_backup_world'' = Inr 0 \<and>
   uncaught (start [''/tmp/temp_backup_world'' \<mapsto> Dir [(''region'', Dir [])]]) = None \<and>
   bar (builds (zipFolder ''/tmp/temp_backup_world'' ''/backups/w.zip'' ''/tmp/temp_backup_world''
          (start [''/tmp/temp_backup_world'' \<mapsto> Dir [(''region'', Dir [])]])) ! 0) = None \<and>
   disk (step (run (zipFolder ''/tmp/temp_backup_world'' ''/backups/w.zip'' ''/tmp/temp_backup_world''
                      (start [''/tmp/temp_backup_world'' \<mapsto> Dir [(''region'', Dir [])]]))
                 [Archive 0 (Progress 0), Archive 0 (Progress 0)])
           (Archive 0 Close)) ''/tmp/temp_backup_world'' = None"
proof -
  let ?s = "start [''/tmp/temp_backup_world'' \<mapsto> Dir [(''region'', Dir [])]]"
  have scan: "getFolderSize (createWriteStream ''/backups/w.zip'' (disk ?s)) ''/tmp/temp_backup_world'' = Inr 0"
    by (simp add: getFolderSize_def createWriteStream_def start_def)
  have alive: "uncaught ?s = None" by (simp add: start_def)
  have len: "length (builds ?s) = 0" by (simp add: start_def)
  have "bar (builds (zipFolder ''/tmp/temp_backup_world'' ''/backups/w.zip'' ''/tmp/temp_backup_world'' ?s) ! 0) = None \<and>
        disk (step (run (zipFolder ''/tmp/temp_backup_world'' ''/backups/w.zip'' ''/tmp/temp_backup_world'' ?s)
                      [Archive 0 (Progress 0), Archive 0 (Progress 0)])
                (Archive 0 Close)) ''/tmp/temp_backup_world'' = None"
    using zipFolder_empty_tree
      [OF scan alive, of "''/tmp/temp_backup_world''" "[0, 0]", unfolded Let_def len list.map]
    by - (elim conjE, intro conjI, assumption+)
  with scan alive show ?thesis by - (elim conjE, intro conjI, assumption+)
qed

section \<open>The timer and the cycles in flight\<close>






section \<open>A cycle that fails\<close>

text \<open>
  An error event of the archiver is printed and nothing more: the build stays in
  flight and the temporary folder stays on the disk, until a \<^verbatim>\<open>close\<close> should follow.
\<close>

lemma archive_error_keeps_temporary_folder:
  "reported (run (start [''/srv/world'' \<mapsto> example_world])
      [Timer example_config example_now, Archive 0 (ArchiveError EIO)]) = [EIO] \<and>
   disk (run (start [''/srv/world'' \<mapsto> example_world])
      [Timer example_config example_now, Archive 0 (ArchiveError EIO)])
     ''/tmp/temp_backup_world'' = Some example_world"
  by (simp add: cycle_defs handleException_def example_world_def)

text \<open>Once something is uncaught, no later event changes the state.\<close>

lemma run_after_uncaught: "uncaught s \<noteq> None \<Longrightarrow> run s evs = s"
  unfolding run_def by (induction evs) (simp_all add: step_def)

text \<open>
  C1 does not hold of the code. The folder to back up is \<open>linked_world\<close>. The first
  cycle copies it, the link as a link; inside \<^verbatim>\<open>zipFolder\<close> the scan of the copy is
  rejected at the link, before any handler is registered. The rejection is uncaught,
  no build exists, and the temporary folder is still on the disk: \<^verbatim>\<open>delFolder\<close> is
  called by the handler of \<^verbatim>\<open>close\<close> alone.
\<close>

theorem failed_scan_leaves_temporary_folder:
  "uncaught (run (start [''/srv/world'' \<mapsto> linked_world]) [Timer example_config example_now])
     = Some ENOENT \<and>
   builds (run (start [''/srv/world'' \<mapsto> linked_world]) [Timer example_config example_now]) = [] \<and>
   disk (run (start [''/srv/world'' \<mapsto> linked_world]) [Timer example_config example_now])
     ''/tmp/temp_backup_world'' = Some linked_world"
  by (simp add: cycle_defs linked_world_def)

end
